theory Spec2Isabelle
  imports Complex_Main "HOL-Library.Word"
begin

section \<open>JavaScript strings and regular-expression replacement\<close>

text \<open>
  A JavaScript string is a sequence of UTF-16 code units; \<open>charCodeAt\<close> reads one of them
  as a number. Literals of the source are written with \<open>js\<close>.
\<close>

type_synonym jsstring = "nat list"

definition js :: "string \<Rightarrow> jsstring" where
  "js s = map of_char s"

definition starts_with :: "jsstring \<Rightarrow> jsstring \<Rightarrow> bool" where
  "starts_with p s \<longleftrightarrow> take (length p) s = p"

text \<open>
  The character classes of the regular expressions in \<open>htmlAnalyzer.ts\<close>:
  \<open>\s\<close> (ECMAScript WhiteSpace and LineTerminator), the line terminators that \<open>.\<close> does
  not match, and \<open>[a-zA-Z0-9\-]\<close>.
\<close>

definition is_space :: "nat \<Rightarrow> bool" where
  "is_space c \<longleftrightarrow>
     c = 9 \<or> c = 10 \<or> c = 11 \<or> c = 12 \<or> c = 13 \<or> c = 32 \<or> c = 160 \<or> c = 5760 \<or>
     (8192 \<le> c \<and> c \<le> 8202) \<or> c = 8232 \<or> c = 8233 \<or> c = 8239 \<or> c = 8287 \<or>
     c = 12288 \<or> c = 65279"

definition is_line_terminator :: "nat \<Rightarrow> bool" where
  "is_line_terminator c \<longleftrightarrow> c = 10 \<or> c = 13 \<or> c = 8232 \<or> c = 8233"

definition is_tag_char :: "nat \<Rightarrow> bool" where
  "is_tag_char c \<longleftrightarrow> (97 \<le> c \<and> c \<le> 122) \<or> (65 \<le> c \<and> c \<le> 90) \<or> (48 \<le> c \<and> c \<le> 57) \<or> c = 45"

text \<open>
  A matcher gives the length of the match of one regular expression at the start of the
  string, if there is one. \<open>replace_all m rep\<close> is \<open>String.prototype.replace\<close> with a
  global regular expression and a replacement without \<open>$\<close>: matches are searched from left
  to right, each search starting where the previous match ended (an empty match advances
  by one code unit).
\<close>

function replace_all :: "(jsstring \<Rightarrow> nat option) \<Rightarrow> jsstring \<Rightarrow> jsstring \<Rightarrow> jsstring" where
  "replace_all m rep [] = (case m [] of None \<Rightarrow> [] | Some n \<Rightarrow> rep)"
| "replace_all m rep (c # cs) =
     (case m (c # cs) of
        None \<Rightarrow> c # replace_all m rep cs
      | Some 0 \<Rightarrow> rep @ c # replace_all m rep cs
      | Some (Suc n) \<Rightarrow> rep @ replace_all m rep (drop n cs))"
  by pat_completeness auto
termination
  by (relation "measure (\<lambda>(m, rep, s). length s)") auto

text \<open>\<open>/\s+/\<close>: a maximal run of white space.\<close>

definition match_ws :: "jsstring \<Rightarrow> nat option" where
  "match_ws s = (let n = length (takeWhile is_space s) in if n = 0 then None else Some n)"

text \<open>\<open>/<!--.*?-->/\<close>: the lazy \<open>.*?\<close> stops at the first \<open>-->\<close> and never crosses a line terminator.\<close>

fun match_lazy_close :: "jsstring \<Rightarrow> nat option" where
  "match_lazy_close [] = None"
| "match_lazy_close (c # cs) =
     (if starts_with (js ''-->'') (c # cs) then Some 3
      else if is_line_terminator c then None
      else map_option Suc (match_lazy_close cs))"

definition match_comment :: "jsstring \<Rightarrow> nat option" where
  "match_comment s =
     (if starts_with (js ''<!--'') s
      then map_option (\<lambda>n. 4 + n) (match_lazy_close (drop 4 s))
      else None)"

text \<open>\<open>/name="[^"]*"/\<close> for \<open>name\<close> one of \<open>style\<close>, \<open>class\<close>, \<open>id\<close>; 34 is the double quote.\<close>

definition match_attr :: "jsstring \<Rightarrow> jsstring \<Rightarrow> nat option" where
  "match_attr name s =
     (let opening = name @ js ''='' @ [34] in
      if starts_with opening s then
        (let rest = drop (length opening) s;
             body = takeWhile (\<lambda>c. c \<noteq> 34) rest
         in case dropWhile (\<lambda>c. c \<noteq> 34) rest of
              [] \<Rightarrow> None
            | q # after \<Rightarrow> Some (length opening + length body + 1))
      else None)"

section \<open>The rolling hash\<close>

text \<open>
  \<open>simpleHash\<close> of \<open>htmlAnalyzer.ts\<close>. JavaScript numbers are doubles; \<open>hash << 5\<close> and
  \<open>hash & hash\<close> convert to a signed 32-bit integer (\<open>ToInt32\<close>), and the subtraction and
  addition between them are exact on doubles because all operands are below \<open>2^53\<close>. The model
  therefore computes on \<open>int\<close> with the conversions written out.
\<close>

definition to_int32 :: "int \<Rightarrow> int" where
  "to_int32 x = (x + 2 ^ 31) mod 2 ^ 32 - 2 ^ 31"

definition shl32 :: "int \<Rightarrow> nat \<Rightarrow> int" where
  "shl32 x n = to_int32 (to_int32 x * 2 ^ (n mod 32))"

definition hash_step :: "int \<Rightarrow> nat \<Rightarrow> int" where
  "hash_step hash char = (let h = shl32 hash 5 - hash + int char in to_int32 h)"

definition hash_loop :: "jsstring \<Rightarrow> int" where
  "hash_loop str = foldl hash_step 0 str"

text \<open>\<open>Number.prototype.toString(36)\<close> on an integer: digits \<open>0-9a-z\<close>, a leading minus sign.\<close>

definition digit36 :: "int \<Rightarrow> nat" where
  "digit36 d = nat (if d < 10 then 48 + d else 87 + d)"

function digits36 :: "int \<Rightarrow> jsstring" where
  "digits36 n = (if n < 36 then [digit36 n] else digits36 (n div 36) @ [digit36 (n mod 36)])"
  by pat_completeness auto
termination
  by (relation "measure nat") auto

declare digits36.simps [simp del]

definition toString36 :: "int \<Rightarrow> jsstring" where
  "toString36 n = (if n < 0 then 45 # digits36 (- n) else digits36 n)"

definition simpleHash :: "jsstring \<Rightarrow> jsstring" where
  "simpleHash str = toString36 (hash_loop str)"

section \<open>The structural fingerprint\<close>

definition simplified :: "jsstring \<Rightarrow> jsstring" where
  "simplified html =
     replace_all (match_attr (js ''id'')) []
       (replace_all (match_attr (js ''class'')) []
         (replace_all (match_attr (js ''style'')) []
           (replace_all match_comment []
             (replace_all match_ws (js '' '') html))))"

definition generateStructuralHash :: "jsstring \<Rightarrow> jsstring" where
  "generateStructuralHash html = simpleHash (simplified html)"





definition spec_rolling_hash :: "jsstring \<Rightarrow> 32 word" where
  "spec_rolling_hash s = foldl (\<lambda>h c. push_bit 5 h - h + word_of_nat c) 0 s"


section \<open>Tag counting\<close>

text \<open>
  \<open>/<([a-zA-Z0-9\-]+)([^>]*)>/\<close> at the start of the string: the first group is the maximal
  run of name characters after \<open><\<close> (60), the second runs to the next \<open>>\<close> (62). The result
  is the first group and the length of the whole match.
\<close>

definition match_tag :: "jsstring \<Rightarrow> (jsstring \<times> nat) option" where
  "match_tag s =
     (case s of
        [] \<Rightarrow> None
      | c # rest \<Rightarrow>
          if c \<noteq> 60 then None
          else
            (let name = takeWhile is_tag_char rest;
                 after_name = dropWhile is_tag_char rest;
                 attrs = takeWhile (\<lambda>c. c \<noteq> 62) after_name
             in if name = [] then None
                else case dropWhile (\<lambda>c. c \<noteq> 62) after_name of
                       [] \<Rightarrow> None
                     | gt # after \<Rightarrow> Some (name, 1 + length name + length attrs + 1)))"

text \<open>
  \<open>toLowerCase\<close> is only applied to the first group, which consists of ASCII letters, digits
  and hyphens; on these it maps \<open>A-Z\<close> to \<open>a-z\<close> and nothing else.
\<close>

definition toLowerCase :: "jsstring \<Rightarrow> jsstring" where
  "toLowerCase s = map (\<lambda>c. if 65 \<le> c \<and> c \<le> 90 then c + 32 else c) s"

text \<open>
  \<open>Record<string, number>\<close> is a finite map of own properties.
  \<open>tagCounts[tag] = (tagCounts[tag] || 0) + 1\<close>:
\<close>

definition increment :: "(jsstring \<rightharpoonup> nat) \<Rightarrow> jsstring \<Rightarrow> (jsstring \<rightharpoonup> nat)" where
  "increment counts key = counts(key \<mapsto> (case counts key of None \<Rightarrow> 0 | Some v \<Rightarrow> v) + 1)"

text \<open>
  The \<open>while ((match = tagRegex.exec(html)))\<close> loop of \<open>extractTagCounts\<close>: the global regular
  expression resumes its search where the previous match ended.
\<close>

function extractTagCounts_loop :: "jsstring \<Rightarrow> (jsstring \<rightharpoonup> nat) \<Rightarrow> (jsstring \<rightharpoonup> nat)" where
  "extractTagCounts_loop [] tagCounts = tagCounts"
| "extractTagCounts_loop (c # cs) tagCounts =
     (case match_tag (c # cs) of
        None \<Rightarrow> extractTagCounts_loop cs tagCounts
      | Some (name, n) \<Rightarrow>
          extractTagCounts_loop (drop (n - 1) cs) (increment tagCounts (toLowerCase name)))"
  by pat_completeness auto
termination
  by (relation "measure (\<lambda>(s, t). length s)") auto

definition extractTagCounts :: "jsstring \<Rightarrow> (jsstring \<rightharpoonup> nat)" where
  "extractTagCounts html = extractTagCounts_loop html Map.empty"




section \<open>Numbers and the host library\<close>

text \<open>
  JavaScript numbers are IEEE doubles. The algorithms are modelled over an arbitrary type
  \<open>'n\<close> of numbers with \<open>+\<close>, \<open>-\<close>, \<open>*\<close>, \<open>/\<close>, \<open>\<le>\<close> and \<open><\<close> about which nothing is assumed
  (the sorts below are purely syntactic), so what is proved holds for doubles with their
  rounding, infinities and NaN. What the source takes from its host is a parameter:
  \<open>num\<close> reads a numeric literal or an integer value as a number, the \<open>Math\<close> functions and
  the \<open>%\<close> operator on non-integers are fields, and \<open>Color_hsl h s l\<close> stands for the red,
  green and blue components of \<open>new THREE.Color(`hsl(h, s%, l%)`)\<close>. Values that are
  integers in the source (counts, loop indices, hashes) are computed on \<open>nat\<close> and \<open>int\<close>.
\<close>

record 'n Math =
  num :: "rat \<Rightarrow> 'n"
  Math_PI :: "'n"
  Math_sqrt :: "'n \<Rightarrow> 'n"
  Math_sin :: "'n \<Rightarrow> 'n"
  Math_cos :: "'n \<Rightarrow> 'n"
  Math_pow :: "'n \<Rightarrow> 'n \<Rightarrow> 'n"
  Math_log :: "'n \<Rightarrow> 'n"
  Math_min :: "'n \<Rightarrow> 'n \<Rightarrow> 'n"
  Math_max :: "'n \<Rightarrow> 'n \<Rightarrow> 'n"
  Math_floor :: "'n \<Rightarrow> int"
  remainder :: "'n \<Rightarrow> 'n \<Rightarrow> 'n"
  divideScalar :: "'n \<Rightarrow> 'n \<Rightarrow> 'n"
  Color_hsl :: "'n \<Rightarrow> 'n \<Rightarrow> 'n \<Rightarrow> 'n \<times> 'n \<times> 'n"

definition int_num :: "'n Math \<Rightarrow> int \<Rightarrow> 'n" where
  "int_num M i = num M (of_int i)"

text \<open>The \<open>%\<close> operator on integers: the result has the sign of the dividend.\<close>

definition js_rem :: "int \<Rightarrow> int \<Rightarrow> int" where
  "js_rem a b = sgn a * (\<bar>a\<bar> mod \<bar>b\<bar>)"

section \<open>Features and parameters\<close>

record SemanticStructure =
  nestingDepth :: nat
  semanticTags :: "jsstring list"
  interactiveTags :: "jsstring list"
  mediaTags :: "jsstring list"

record ContentMetrics =
  textLength :: nat
  linkCount :: nat
  imageCount :: nat
  formElements :: nat

record 'n DomComplexity =
  totalElements :: nat
  uniqueTags :: nat
  avgNestingLevel :: "'n"
  maxNestingLevel :: nat

record 'n HTMLFeatures =
  tagCounts :: "jsstring \<rightharpoonup> nat"
  classCounts :: "jsstring \<rightharpoonup> nat"
  idCounts :: "jsstring \<rightharpoonup> nat"
  attributeCounts :: "jsstring \<rightharpoonup> nat"
  semanticStructure :: SemanticStructure
  contentMetrics :: ContentMetrics
  domComplexity :: "'n DomComplexity"
  colorPalette :: "jsstring list"
  structuralHash :: jsstring

record 'n FractalParams =
  iterations :: int
  complexity :: "'n"
  scale :: "'n"
  colorSeed :: int
  algorithm :: jsstring
  morphFactor :: "'n"
  animationSpeed :: "'n"

section \<open>The generation algorithms\<close>

text \<open>
  A \<open>BufferGeometry\<close> under construction: the \<open>vertices\<close> and \<open>colors\<close> arrays that the
  algorithms push to.
\<close>

record 'n buffers =
  vertices :: "'n list"
  colors :: "'n list"

text \<open>
  The objects the algorithms return, by what they are built from: position and color
  attributes and the material's size or line width; a mesh by the radius of its
  tetrahedron geometry, its material's color and its position.
\<close>

datatype 'n Object3D =
    Points "'n list" "'n list" 'n
  | LineSegments "'n list" "'n list" 'n
  | Line "'n list" "'n list" 'n
  | Mesh 'n "'n \<times> 'n \<times> 'n" "'n \<times> 'n \<times> 'n"
  | Group "'n Object3D list"

fun position :: "'n Object3D \<Rightarrow> 'n list" where
  "position (Points p c s) = p"
| "position (LineSegments p c w) = p"
| "position (Line p c w) = p"
| "position (Mesh r c p) = []"
| "position (Group objs) = []"

fun color :: "'n Object3D \<Rightarrow> 'n list" where
  "color (Points p c s) = c"
| "color (LineSegments p c w) = c"
| "color (Line p c w) = c"
| "color (Mesh r c p) = []"
| "color (Group objs) = []"

definition push_color :: "'n \<times> 'n \<times> 'n \<Rightarrow> 'n list \<Rightarrow> 'n list" where
  "push_color c cs = cs @ [fst c, fst (snd c), snd (snd c)]"

subsection \<open>Escape-time sets\<close>

text \<open>
  The inner loop of \<open>generateMandelbrotSet\<close> and \<open>generateJuliaSet\<close>:
  \<open>while (x * x + y * y <= 4 && iteration < 100) { xtemp = x * x - y * y + a; y = 2 * x * y + b;
  x = xtemp; iteration++ }\<close>, with \<open>a, b\<close> the sample point \<open>x0, y0\<close> (Mandelbrot) or the constant
  \<open>cReal, cImag\<close> (Julia). The result is the final value of \<open>iteration\<close>.
\<close>

function escape_loop ::
  "('n::{plus,minus,times,ord}) Math \<Rightarrow> 'n \<Rightarrow> 'n \<Rightarrow> 'n \<Rightarrow> 'n \<Rightarrow> nat \<Rightarrow> nat" where
  "escape_loop M a b x y iteration =
     (if x * x + y * y \<le> num M 4 \<and> iteration < 100
      then escape_loop M a b (x * x - y * y + a) (num M 2 * x * y + b) (iteration + 1)
      else iteration)"
  by pat_completeness auto
termination
  by (relation "measure (\<lambda>(M, a, b, x, y, iteration). 100 - iteration)") auto

declare escape_loop.simps [simp del]

text \<open>
  The quadratic map of the loop body and its iterates, to state which samples escape.
\<close>

definition quadratic_map ::
  "('n::{plus,minus,times}) Math \<Rightarrow> 'n \<Rightarrow> 'n \<Rightarrow> 'n \<times> 'n \<Rightarrow> 'n \<times> 'n" where
  "quadratic_map M a b z = (fst z * fst z - snd z * snd z + a, num M 2 * fst z * snd z + b)"

definition orbit ::
  "('n::{plus,minus,times}) Math \<Rightarrow> 'n \<Rightarrow> 'n \<Rightarrow> 'n \<times> 'n \<Rightarrow> nat \<Rightarrow> 'n \<times> 'n" where
  "orbit M a b z k = (quadratic_map M a b ^^ k) z"

text \<open>The sample point \<open>x0, y0\<close> of \<open>generateMandelbrotSet\<close> at the grid indices \<open>i, j\<close>.\<close>

definition mandelbrot_point ::
  "('n::{plus,minus,times,inverse}) Math \<Rightarrow> 'n HTMLFeatures \<Rightarrow> 'n FractalParams \<Rightarrow> int \<Rightarrow> int \<Rightarrow> 'n \<times> 'n" where
  "mandelbrot_point M features params i j =
     (let zoom = num M (5 / 10) + int_num M (int (nestingDepth (semanticStructure features))) * num M (1 / 10);
          offsetX = int_num M (int (linkCount (contentMetrics features) mod 100)) * num M (1 / 1000);
          offsetY = int_num M (int (imageCount (contentMetrics features) mod 100)) * num M (1 / 1000);
          x0 = ((int_num M i - int_num M (iterations params) / num M 2) * zoom) / num M 100 + offsetX;
          y0 = ((int_num M j - int_num M (iterations params) / num M 2) * zoom) / num M 100 + offsetY
      in (x0, y0))"

text \<open>The body of the two nested \<open>for\<close> loops of \<open>generateMandelbrotSet\<close> at one sample.\<close>

definition mandelbrot_sample ::
  "('n::{plus,minus,times,inverse,ord}) Math \<Rightarrow> 'n HTMLFeatures \<Rightarrow> 'n FractalParams \<Rightarrow>
   int \<Rightarrow> int \<Rightarrow> 'n buffers \<Rightarrow> 'n buffers" where
  "mandelbrot_sample M features params i j buf =
     (let c = mandelbrot_point M features params i j;
          iteration = escape_loop M (fst c) (snd c) (num M 0) (num M 0) 0
      in if iteration < 100 then
           (let hue = remainder M
                  (int_num M (int iteration * 360) / num M 100 + int_num M (colorSeed params))
                  (num M 360);
                saturation = 80 + (length (semanticTags (semanticStructure features)) * 2) mod 20;
                lightness = 50 + iteration mod 30
            in \<lparr>vertices = vertices buf @
                   [(int_num M i - int_num M (iterations params) / num M 2) * num M (1 / 10),
                    (int_num M j - int_num M (iterations params) / num M 2) * num M (1 / 10),
                    int_num M (int iteration) * num M (5 / 10)],
                 colors = push_color
                   (Color_hsl M hue (int_num M (int saturation)) (int_num M (int lightness)))
                   (colors buf)\<rparr>)
         else buf)"

text \<open>
  \<open>for (let i = 0; i < params.iterations; i++) for (let j = 0; j < params.iterations; j++)\<close>
  is a fold over the indices \<open>0, ..., iterations - 1\<close>.
\<close>

definition generateMandelbrotSet ::
  "('n::{plus,minus,times,inverse,ord}) Math \<Rightarrow> 'n HTMLFeatures \<Rightarrow> 'n FractalParams \<Rightarrow> 'n Object3D" where
  "generateMandelbrotSet M features params =
     (let complexity = Math_min M (int_num M (int (totalElements (domComplexity features))) / num M 100) (num M 5);
          buf = fold (\<lambda>i. fold (\<lambda>j. mandelbrot_sample M features params i j)
                                [0..iterations params - 1])
                     [0..iterations params - 1] \<lparr>vertices = [], colors = []\<rparr>
      in Points (vertices buf) (colors buf) (num M (8 / 10) + complexity * num M (2 / 10)))"

text \<open>The constant \<open>cReal, cImag\<close> and the starting point \<open>x, y\<close> of \<open>generateJuliaSet\<close>.\<close>

definition julia_constant ::
  "('n::{plus,minus,times,inverse}) Math \<Rightarrow> 'n HTMLFeatures \<Rightarrow> 'n \<times> 'n" where
  "julia_constant M features =
     (let cReal = num M (- 7 / 10) + int_num M (int (uniqueTags (domComplexity features) mod 20)) * num M (5 / 100);
          cImag = num M (27015 / 100000) +
                  int_num M (int (formElements (contentMetrics features) mod 10)) * num M (2 / 100)
      in (cReal, cImag))"

definition julia_point ::
  "('n::{plus,minus,times,inverse}) Math \<Rightarrow> 'n FractalParams \<Rightarrow> int \<Rightarrow> int \<Rightarrow> 'n \<times> 'n" where
  "julia_point M params i j =
     (let x = ((int_num M i - int_num M (iterations params) / num M 2) * num M 3) / int_num M (iterations params);
          y = ((int_num M j - int_num M (iterations params) / num M 2) * num M 3) / int_num M (iterations params)
      in (x, y))"

definition julia_sample ::
  "('n::{plus,minus,times,inverse,ord}) Math \<Rightarrow> 'n HTMLFeatures \<Rightarrow> 'n FractalParams \<Rightarrow>
   int \<Rightarrow> int \<Rightarrow> 'n buffers \<Rightarrow> 'n buffers" where
  "julia_sample M features params i j buf =
     (let c = julia_constant M features;
          complexity = Math_min M (int_num M (int (totalElements (domComplexity features))) / num M 50) (num M 8);
          z = julia_point M params i j;
          iteration = escape_loop M (fst c) (snd c) (fst z) (snd z) 0
      in if iteration < 100 then
           (let hue = remainder M
                  (int_num M (int iteration * 180) / num M 100 + int_num M (colorSeed params) +
                   int_num M (int (length (colorPalette features) * 20)))
                  (num M 360)
            in \<lparr>vertices = vertices buf @
                   [(int_num M i - int_num M (iterations params) / num M 2) * num M (15 / 100),
                    (int_num M j - int_num M (iterations params) / num M 2) * num M (15 / 100),
                    Math_sin M (int_num M (int iteration) * num M (1 / 10)) * complexity],
                 colors = push_color (Color_hsl M hue (num M 90) (num M 60)) (colors buf)\<rparr>)
         else buf)"

definition generateJuliaSet ::
  "('n::{plus,minus,times,inverse,ord}) Math \<Rightarrow> 'n HTMLFeatures \<Rightarrow> 'n FractalParams \<Rightarrow> 'n Object3D" where
  "generateJuliaSet M features params =
     (let complexity = Math_min M (int_num M (int (totalElements (domComplexity features))) / num M 50) (num M 8);
          buf = fold (\<lambda>i. fold (\<lambda>j. julia_sample M features params i j)
                                [0..iterations params - 1])
                     [0..iterations params - 1] \<lparr>vertices = [], colors = []\<rparr>
      in Points (vertices buf) (colors buf) (num M (5 / 10) + complexity * num M (1 / 10)))"

text \<open>
  A sample escapes when some iterate reached in fewer than 100 steps has \<open>x\<^sup>2 + y\<^sup>2 > 4\<close>.
\<close>

definition escapes :: "('n::{plus,minus,times,ord}) Math \<Rightarrow> 'n \<Rightarrow> 'n \<Rightarrow> 'n \<times> 'n \<Rightarrow> bool" where
  "escapes M a b z \<longleftrightarrow>
     (\<exists>k<100. num M 4 < fst (orbit M a b z k) * fst (orbit M a b z k) +
                          snd (orbit M a b z k) * snd (orbit M a b z k))"

text \<open>The first conjunct of the loop guard.\<close>

definition inside :: "('n::{plus,minus,times,ord}) Math \<Rightarrow> 'n \<times> 'n \<Rightarrow> bool" where
  "inside M z \<longleftrightarrow> fst z * fst z + snd z * snd z \<le> num M 4"

definition mandelbrot_escapes ::
  "('n::{plus,minus,times,inverse,ord}) Math \<Rightarrow> 'n HTMLFeatures \<Rightarrow> 'n FractalParams \<Rightarrow> int \<Rightarrow> int \<Rightarrow> bool" where
  "mandelbrot_escapes M features params i j =
     (let c = mandelbrot_point M features params i j
      in escapes M (fst c) (snd c) (num M 0, num M 0))"

definition julia_escapes ::
  "('n::{plus,minus,times,inverse,ord}) Math \<Rightarrow> 'n HTMLFeatures \<Rightarrow> 'n FractalParams \<Rightarrow> int \<Rightarrow> int \<Rightarrow> bool" where
  "julia_escapes M features params i j =
     (let c = julia_constant M features
      in escapes M (fst c) (snd c) (julia_point M params i j))"

text \<open>
  Exact rational arithmetic, to evaluate the definitions on concrete inputs; the functions
  that are irrational on the rationals are replaced by rational stand-ins.
\<close>

definition rational_math :: "rat Math" where
  "rational_math =
     \<lparr>num = (\<lambda>r. r), Math_PI = 355 / 113, Math_sqrt = (\<lambda>x. x), Math_sin = (\<lambda>x. x),
      Math_cos = (\<lambda>x. 1), Math_pow = (\<lambda>x y. x * x), Math_log = (\<lambda>x. x),
      Math_min = min, Math_max = max, Math_floor = floor, remainder = (\<lambda>x y. x - y * of_int (floor (x / y))),
      divideScalar = (\<lambda>x s. x / s), Color_hsl = (\<lambda>h s l. (h, s, l))\<rparr>"

subsection \<open>Lorenz attractor\<close>

text \<open>One pass of the \<open>for\<close> loop of \<open>generateLorenzAttractor\<close>, on the point and the buffers.\<close>

definition lorenz_step ::
  "('n::{plus,minus,times,inverse}) Math \<Rightarrow> 'n \<Rightarrow> 'n \<Rightarrow> 'n \<Rightarrow> 'n FractalParams \<Rightarrow> int \<Rightarrow>
   ('n \<times> 'n \<times> 'n) \<times> 'n buffers \<Rightarrow> ('n \<times> 'n \<times> 'n) \<times> 'n buffers" where
  "lorenz_step M sigma rho beta params i st =
     (let x = fst (fst st); y = fst (snd (fst st)); z = snd (snd (fst st)); buf = snd st;
          dt = num M (1 / 100);
          dx = sigma * (y - x) * dt;
          dy = (x * (rho - z) - y) * dt;
          dz = (x * y - beta * z) * dt;
          x = x + dx; y = y + dy; z = z + dz;
          distance = Math_sqrt M (x * x + y * y + z * z);
          hue = remainder M
                  (distance * num M 10 + int_num M (colorSeed params) + int_num M i * num M (5 / 10))
                  (num M 360)
      in ((x, y, z),
          \<lparr>vertices = vertices buf @ [x * num M (3 / 10), y * num M (3 / 10), z * num M (3 / 10)],
           colors = push_color (Color_hsl M hue (num M 90) (num M 60)) (colors buf)\<rparr>))"

definition generateLorenzAttractor ::
  "('n::{plus,minus,times,inverse}) Math \<Rightarrow> 'n HTMLFeatures \<Rightarrow> 'n FractalParams \<Rightarrow> 'n Object3D" where
  "generateLorenzAttractor M features params =
     (let sigma = num M 10 + int_num M (int (totalElements (domComplexity features) mod 100)) * num M (1 / 10);
          rho = num M 28 + int_num M (int (textLength (contentMetrics features) mod 1000)) * num M (1 / 100);
          beta = num M 8 / num M 3 +
                 int_num M (int (length (semanticTags (semanticStructure features)) mod 10)) * num M (1 / 10);
          buf = snd (fold (lorenz_step M sigma rho beta params) [0..iterations params * 20 - 1]
                       ((num M (1 / 10), num M 0, num M 0), \<lparr>vertices = [], colors = []\<rparr>))
      in Group [Points (vertices buf) (colors buf) (num M (3 / 10)),
                Line (vertices buf) (colors buf) (num M 1)])"

subsection \<open>Dragon curve\<close>

text \<open>One rewriting of the sequence: \<open>1\<close> becomes \<open>1R2\<close>, any other character \<open>1L2\<close>.\<close>

definition rewrite_sequence :: "jsstring \<Rightarrow> jsstring" where
  "rewrite_sequence sequence =
     concat (map (\<lambda>c. if [c] = js ''1'' then js ''1R2'' else js ''1L2'') sequence)"

text \<open>The turtle of \<open>generateDragonCurve\<close>: position, direction and buffers.\<close>

record 'n turtle =
  turtle_x :: "'n"
  turtle_y :: "'n"
  turtle_z :: "'n"
  direction :: "'n"
  turtle_buffers :: "'n buffers"

definition dragon_step ::
  "('n::{plus,minus,times,inverse}) Math \<Rightarrow> 'n HTMLFeatures \<Rightarrow> 'n FractalParams \<Rightarrow> jsstring \<Rightarrow> 'n \<Rightarrow>
   nat \<Rightarrow> 'n turtle \<Rightarrow> 'n turtle" where
  "dragon_step M features params sequence segment_scale i t =
     (let char = [sequence ! i] in
      if char = js ''1'' \<or> char = js ''2'' then
        (let oldX = turtle_x t; oldY = turtle_y t; oldZ = turtle_z t;
             x = oldX + Math_cos M (direction t) * segment_scale;
             y = oldY + Math_sin M (direction t) * segment_scale;
             z = oldZ +
                 Math_sin M (int_num M (int i) * num M (1 / 100) +
                             int_num M (int (totalElements (domComplexity features))) * num M (1 / 1000)) *
                 segment_scale * num M (5 / 10);
             hue = remainder M
                     (int_num M (int (i * 180)) / int_num M (int (length sequence)) +
                      int_num M (colorSeed params))
                     (num M 360);
             color = Color_hsl M hue (num M 85) (num M 65);
             buf = turtle_buffers t
         in t\<lparr>turtle_x := x, turtle_y := y, turtle_z := z,
              turtle_buffers :=
                \<lparr>vertices = vertices buf @ [oldX, oldY, oldZ, x, y, z],
                 colors = push_color color (push_color color (colors buf))\<rparr>\<rparr>)
      else if char = js ''R'' then t\<lparr>direction := direction t + Math_PI M / num M 2\<rparr>
      else if char = js ''L'' then t\<lparr>direction := direction t - Math_PI M / num M 2\<rparr>
      else t)"

definition generateDragonCurve ::
  "('n::{plus,minus,times,inverse}) Math \<Rightarrow> 'n HTMLFeatures \<Rightarrow> 'n FractalParams \<Rightarrow> 'n Object3D" where
  "generateDragonCurve M features params =
     (let depth = min (nestingDepth (semanticStructure features) + 8) 16;
          scale = num M (5 / 10) + avgNestingLevel (domComplexity features) * num M (1 / 10);
          sequence = (rewrite_sequence ^^ depth) (js ''1'');
          t = fold (dragon_step M features params sequence scale)
                [0..<nat (min (int (length sequence)) (iterations params * 10))]
                \<lparr>turtle_x = num M 0, turtle_y = num M 0, turtle_z = num M 0, direction = num M 0,
                 turtle_buffers = \<lparr>vertices = [], colors = []\<rparr>\<rparr>
      in LineSegments (vertices (turtle_buffers t)) (colors (turtle_buffers t)) (num M 2))"

subsection \<open>Sierpinski tetrahedron\<close>

definition vector_add :: "('n::plus) \<times> 'n \<times> 'n \<Rightarrow> 'n \<times> 'n \<times> 'n \<Rightarrow> 'n \<times> 'n \<times> 'n" where
  "vector_add a b = (fst a + fst b, fst (snd a) + fst (snd b), snd (snd a) + snd (snd b))"

definition vector_divideScalar :: "'n Math \<Rightarrow> 'n \<times> 'n \<times> 'n \<Rightarrow> 'n \<Rightarrow> 'n \<times> 'n \<times> 'n" where
  "vector_divideScalar M a s =
     (divideScalar M (fst a) s, divideScalar M (fst (snd a)) s, divideScalar M (snd (snd a)) s)"

text \<open>\<open>a.clone().add(b).divideScalar(2)\<close>\<close>

definition midpoint :: "('n::plus) Math \<Rightarrow> 'n \<times> 'n \<times> 'n \<Rightarrow> 'n \<times> 'n \<times> 'n \<Rightarrow> 'n \<times> 'n \<times> 'n" where
  "midpoint M a b = vector_divideScalar M (vector_add a b) (num M 2)"

text \<open>The leaf of \<open>recursiveSierpinski\<close>: one small mesh at the centroid.\<close>

definition sierpinski_leaf ::
  "('n::plus) Math \<Rightarrow> ('n \<times> 'n \<times> 'n) list \<Rightarrow> 'n FractalParams \<Rightarrow> nat \<Rightarrow> 'n Object3D" where
  "sierpinski_leaf M vs params level =
     (let hue = js_rem (int level * 60 + colorSeed params) 360;
          center = vector_divideScalar M (fold (\<lambda>v c. vector_add c v) vs (num M 0, num M 0, num M 0)) (num M 4)
      in Mesh (num M (2 / 10)) (Color_hsl M (int_num M hue) (num M 80) (num M 60)) center)"

text \<open>The four child tetrahedra, in the order of the four recursive calls.\<close>

definition sierpinski_children ::
  "('n::plus) Math \<Rightarrow> ('n \<times> 'n \<times> 'n) list \<Rightarrow> ('n \<times> 'n \<times> 'n) list list" where
  "sierpinski_children M vs =
     (let midpoints =
            [midpoint M (vs ! 0) (vs ! 1), midpoint M (vs ! 0) (vs ! 2), midpoint M (vs ! 0) (vs ! 3),
             midpoint M (vs ! 1) (vs ! 2), midpoint M (vs ! 1) (vs ! 3), midpoint M (vs ! 2) (vs ! 3)]
      in [[vs ! 0, midpoints ! 0, midpoints ! 1, midpoints ! 2],
          [vs ! 1, midpoints ! 0, midpoints ! 3, midpoints ! 4],
          [vs ! 2, midpoints ! 1, midpoints ! 3, midpoints ! 5],
          [vs ! 3, midpoints ! 2, midpoints ! 4, midpoints ! 5]])"

function recursiveSierpinski ::
  "('n::plus) Math \<Rightarrow> ('n \<times> 'n \<times> 'n) list \<Rightarrow> int \<Rightarrow> 'n Object3D list \<Rightarrow> 'n HTMLFeatures \<Rightarrow>
   'n FractalParams \<Rightarrow> nat \<Rightarrow> 'n Object3D list" where
  "recursiveSierpinski M vs depth meshes features params level =
     (if depth \<le> 0 \<or> level > 15 then meshes @ [sierpinski_leaf M vs params level]
      else fold (\<lambda>child g. recursiveSierpinski M child (depth - 1) g features params (level + 1))
             (sierpinski_children M vs) meshes)"
  by pat_completeness auto
termination
  by (relation "measure (\<lambda>(M, vs, depth, rest). nat depth)") auto

declare recursiveSierpinski.simps [simp del]

definition generateSierpinskiTetrahedron ::
  "('n::{plus,minus,times,uminus}) Math \<Rightarrow> 'n HTMLFeatures \<Rightarrow> 'n FractalParams \<Rightarrow> 'n Object3D" where
  "generateSierpinskiTetrahedron M features params =
     (let depth = min (nestingDepth (semanticStructure features) + 3) 8;
          baseSize = num M 5 + int_num M (int (uniqueTags (domComplexity features))) * num M (2 / 10);
          tetrahedronVertices =
            [(num M 0, baseSize, num M 0),
             (- baseSize, - baseSize, baseSize),
             (baseSize, - baseSize, baseSize),
             (num M 0, - baseSize, - baseSize)]
      in Group (recursiveSierpinski M tetrahedronVertices (int depth) [] features params 0))"

subsection \<open>Spirograph\<close>

text \<open>The body of the inner \<open>for\<close> loop of \<open>generateSpirograph\<close>.\<close>

definition spirograph_point ::
  "('n::{plus,minus,times,inverse}) Math \<Rightarrow> 'n \<Rightarrow> 'n \<Rightarrow> 'n \<Rightarrow> 'n FractalParams \<Rightarrow> int \<Rightarrow> int \<Rightarrow>
   'n buffers \<Rightarrow> 'n buffers" where
  "spirograph_point M R r d params layer i buf =
     (let layerR = R + int_num M (layer * 2);
          layerr = r + int_num M layer * num M (5 / 10);
          layerd = d + int_num M layer * num M (3 / 10);
          zOffset = int_num M (layer * 2);
          t = int_num M i * num M (1 / 10);
          x = (layerR - layerr) * Math_cos M t + layerd * Math_cos M (((layerR - layerr) / layerr) * t);
          y = (layerR - layerr) * Math_sin M t - layerd * Math_sin M (((layerR - layerr) / layerr) * t);
          z = zOffset + Math_sin M (t * num M (2 / 10)) * num M 2;
          hue = remainder M (t * num M 30 + int_num M (layer * 45) + int_num M (colorSeed params)) (num M 360);
          saturation = int_num M (70 + layer * 5);
          lightness = num M 50 + Math_sin M (t * num M (1 / 10)) * num M 20
      in \<lparr>vertices = vertices buf @ [x * num M (3 / 10), y * num M (3 / 10), z * num M (3 / 10)],
          colors = push_color (Color_hsl M hue saturation lightness) (colors buf)\<rparr>)"

definition generateSpirograph ::
  "('n::{plus,minus,times,inverse}) Math \<Rightarrow> 'n HTMLFeatures \<Rightarrow> 'n FractalParams \<Rightarrow> 'n Object3D" where
  "generateSpirograph M features params =
     (let R = num M 5 + int_num M (int (uniqueTags (domComplexity features))) * num M (5 / 10);
          r = num M 2 + int_num M (int (linkCount (contentMetrics features))) * num M (1 / 100);
          d = num M 3 + int_num M (int (imageCount (contentMetrics features))) * num M (2 / 100);
          layers = min (length (semanticTags (semanticStructure features)) + 2) 8;
          buf = fold (\<lambda>layer. fold (spirograph_point M R r d params layer)
                                   [0..iterations params * 5 - 1])
                  [0..int layers - 1] \<lparr>vertices = [], colors = []\<rparr>
      in Line (vertices buf) (colors buf) (num M 2))"

subsection \<open>Fractal tree\<close>

text \<open>
  \<open>Math.random()\<close> is the only ambient input of the algorithms. The values it returns, in
  the order of the calls, are the sequence \<open>random\<close>; the number of calls made so far is
  carried with the buffers.
\<close>

record 'n random_buffers = "'n buffers" +
  random_calls :: nat

text \<open>
  \<open>generateBranch\<close> up to its \<open>for\<close> loop: the segment and its color are pushed and the
  length of the child branches is drawn.
\<close>

definition push_segment ::
  "('n::{plus,minus,times,inverse}) Math \<Rightarrow> (nat \<Rightarrow> 'n) \<Rightarrow> 'n \<Rightarrow> 'n \<Rightarrow> 'n \<Rightarrow> 'n \<Rightarrow> 'n \<Rightarrow> 'n \<Rightarrow>
   int \<Rightarrow> 'n FractalParams \<Rightarrow> 'n random_buffers \<Rightarrow> 'n random_buffers \<times> 'n" where
  "push_segment M random startX startY startZ endX endY endZ depth params buf =
     (let buf1 = buf\<lparr>vertices := vertices buf @ [startX, startY, startZ, endX, endY, endZ]\<rparr>;
          hue = js_rem ((12 - depth) * 30 + colorSeed params) 360;
          saturation = 60 + depth * 5;
          lightness = 40 + depth * 3;
          color = Color_hsl M (int_num M hue) (int_num M saturation) (int_num M lightness);
          buf2 = buf1\<lparr>colors := push_color color (push_color color (colors buf1))\<rparr>;
          length = Math_sqrt M
            (Math_pow M (endX - startX) (num M 2) + Math_pow M (endY - startY) (num M 2) +
             Math_pow M (endZ - startZ) (num M 2));
          newLength = length * (num M (6 / 10) + random (random_calls buf2) * num M (2 / 10))
      in (buf2\<lparr>random_calls := random_calls buf2 + 1\<rparr>, newLength))"

text \<open>The end point of child \<open>i\<close>, drawn in the body of the \<open>for\<close> loop.\<close>

definition new_end ::
  "('n::{plus,minus,times,inverse}) Math \<Rightarrow> (nat \<Rightarrow> 'n) \<Rightarrow> 'n \<Rightarrow> 'n \<Rightarrow> 'n \<Rightarrow> 'n \<Rightarrow> int \<Rightarrow> int \<Rightarrow>
   'n random_buffers \<Rightarrow> ('n \<times> 'n \<times> 'n) \<times> 'n random_buffers" where
  "new_end M random endX endY endZ newLength i branchingFactor buf =
     (let angle = (int_num M i * num M 2 * Math_PI M) / int_num M branchingFactor +
                  random (random_calls buf) * num M (5 / 10);
          tilt = (random (random_calls buf + 1) - num M (5 / 10)) * Math_PI M * num M (3 / 10);
          newEndX = endX + Math_cos M angle * Math_cos M tilt * newLength;
          newEndY = endY + newLength * num M (8 / 10);
          newEndZ = endZ + Math_sin M angle * Math_cos M tilt * newLength
      in ((newEndX, newEndY, newEndZ), buf\<lparr>random_calls := random_calls buf + 2\<rparr>))"

function generateBranch ::
  "('n::{plus,minus,times,inverse}) Math \<Rightarrow> (nat \<Rightarrow> 'n) \<Rightarrow> 'n \<Rightarrow> 'n \<Rightarrow> 'n \<Rightarrow> 'n \<Rightarrow> 'n \<Rightarrow> 'n \<Rightarrow>
   int \<Rightarrow> int \<Rightarrow> 'n HTMLFeatures \<Rightarrow> 'n FractalParams \<Rightarrow> 'n random_buffers \<Rightarrow> 'n random_buffers" where
  "generateBranch M random startX startY startZ endX endY endZ depth branchingFactor features params buf =
     (if depth \<le> 0 \<or> depth > 20 then buf
      else
        let pushed = push_segment M random startX startY startZ endX endY endZ depth params buf
        in fold
             (\<lambda>i b.
                let e = new_end M random endX endY endZ (snd pushed) i branchingFactor b
                in generateBranch M random endX endY endZ
                     (fst (fst e)) (fst (snd (fst e))) (snd (snd (fst e)))
                     (depth - 1) (max 2 (branchingFactor - 1)) features params (snd e))
             [0..branchingFactor - 1] (fst pushed))"
  by pat_completeness auto
termination
  by (relation "measure (\<lambda>(M, random, sx, sy, sz, ex, ey, ez, depth, rest). nat depth)") auto

declare generateBranch.simps [simp del]

text \<open>
  \<open>generateFractalTree\<close> starts after \<open>calls\<close> earlier calls of \<open>Math.random\<close> and returns, with
  the object, the number of calls made when it is done.
\<close>

definition generateFractalTree ::
  "('n::{plus,minus,times,inverse}) Math \<Rightarrow> (nat \<Rightarrow> 'n) \<Rightarrow> nat \<Rightarrow> 'n HTMLFeatures \<Rightarrow> 'n FractalParams \<Rightarrow>
   'n Object3D \<times> nat" where
  "generateFractalTree M random calls features params =
     (let maxDepth = min (nestingDepth (semanticStructure features) + 6) 12;
          branchingFactor = min (uniqueTags (domComplexity features) + 2) 6;
          buf = generateBranch M random (num M 0) (num M 0) (num M 0) (num M 0) (num M 8) (num M 0)
                  (int maxDepth) (int branchingFactor) features params
                  \<lparr>vertices = [], colors = [], random_calls = calls\<rparr>
      in (LineSegments (vertices buf) (colors buf) (num M 3), random_calls buf))"

text \<open>
  The number of segments that a call of \<open>generateBranch\<close> pushes: one for the branch and,
  for each of the \<open>branchingFactor\<close> children, those of the child.
\<close>

function branch_segments :: "int \<Rightarrow> int \<Rightarrow> nat" where
  "branch_segments depth branchingFactor =
     (if depth \<le> 0 \<or> depth > 20 then 0
      else 1 + nat branchingFactor * branch_segments (depth - 1) (max 2 (branchingFactor - 1)))"
  by pat_completeness auto
termination
  by (relation "measure (\<lambda>(depth, branchingFactor). nat depth)") auto

declare branch_segments.simps [simp del]

text \<open>A line-segment geometry holds two vertices, six coordinates, per segment.\<close>

definition segment_count :: "'n Object3D \<Rightarrow> nat" where
  "segment_count obj = length (position obj) div 6"

section \<open>The enhanced generator\<close>

text \<open>
  \<open>EnhancedFractalGenerator\<close>. Its own \<open>simpleHash\<close> is the rolling hash with \<open>Math.abs\<close> in
  place of the base-36 rendering.
\<close>

definition generator_simpleHash :: "jsstring \<Rightarrow> int" where
  "generator_simpleHash str = \<bar>hash_loop str\<bar>"

record 'n FractalSection =
  section_name :: jsstring
  section_algorithm :: jsstring
  enabled :: bool
  section_position :: "'n \<times> 'n \<times> 'n"
  section_scale :: "'n"

record RenderSettings =
  background :: jsstring
  lighting :: bool
  postProcessing :: bool
  animation :: bool
  quality :: jsstring

definition algorithmMap :: "jsstring list" where
  "algorithmMap =
     [js ''mandelbrot'', js ''julia'', js ''lorenz'', js ''dragon'', js ''sierpinski'',
      js ''spirograph'', js ''tree'']"

definition sectionTypes :: "jsstring list" where
  "sectionTypes =
     [js ''header'', js ''footer'', js ''body'', js ''section'', js ''nav'', js ''main'',
      js ''article'']"

definition selectAlgorithmForSection :: "'n HTMLFeatures \<Rightarrow> jsstring \<Rightarrow> nat \<Rightarrow> jsstring" where
  "selectAlgorithmForSection features sectionType index =
     (let hash = generator_simpleHash (sectionType @ structuralHash features);
          complexityFactor = int (totalElements (domComplexity features))
      in if sectionType = js ''header'' then
           [js ''mandelbrot'', js ''julia'', js ''spirograph''] ! nat ((hash + complexityFactor) mod 3)
         else if sectionType = js ''footer'' then
           [js ''lorenz'', js ''dragon''] ! nat ((hash + complexityFactor) mod 2)
         else if sectionType = js ''body'' \<or> sectionType = js ''main'' then
           [js ''sierpinski'', js ''tree'', js ''spirograph''] ! nat ((hash + complexityFactor) mod 3)
         else if sectionType = js ''nav'' then js ''dragon''
         else if sectionType = js ''section'' \<or> sectionType = js ''article'' then
           [js ''tree'', js ''julia'', js ''mandelbrot'', js ''spirograph''] !
             nat ((hash + complexityFactor) mod 4)
         else algorithmMap ! (index mod length algorithmMap))"

definition calculateSectionPosition ::
  "('n::{plus,minus,times,inverse}) Math \<Rightarrow> nat \<Rightarrow> nat \<Rightarrow> 'n \<times> 'n \<times> 'n" where
  "calculateSectionPosition M index totalSections =
     (if totalSections = 1 then (num M 0, num M 0, num M 0)
      else
        let radius = int_num M (int (20 + totalSections * 3));
            angle = (int_num M (int (index * 2)) * Math_PI M) / int_num M (int totalSections);
            height = Math_sin M (angle * num M 2) * num M 10 +
                     (int_num M (int index) - int_num M (int totalSections) / num M 2) * num M 5
        in (Math_cos M angle * radius, height, Math_sin M angle * radius))"

text \<open>\<open>tagCounts[type] > 0\<close> and \<open>tagCounts[type] || 1\<close>; a missing key reads \<open>undefined\<close>.\<close>

definition positive_count :: "'n HTMLFeatures \<Rightarrow> jsstring \<Rightarrow> bool" where
  "positive_count features type = (case tagCounts features type of None \<Rightarrow> False | Some c \<Rightarrow> 0 < c)"

definition count_or_one :: "'n HTMLFeatures \<Rightarrow> jsstring \<Rightarrow> nat" where
  "count_or_one features type =
     (case tagCounts features type of None \<Rightarrow> 1 | Some c \<Rightarrow> if c = 0 then 1 else c)"

definition calculateSectionScale ::
  "('n::{plus,times,inverse}) Math \<Rightarrow> 'n HTMLFeatures option \<Rightarrow> jsstring \<Rightarrow> 'n" where
  "calculateSectionScale M this_features sectionType =
     (case this_features of
        None \<Rightarrow> num M 1
      | Some features \<Rightarrow>
          let count = count_or_one features sectionType;
              baseScale = num M (7 / 10) + Math_min M (int_num M (int count) / num M 10) (num M (15 / 10))
          in if sectionType = js ''body'' \<or> sectionType = js ''main'' then baseScale * num M (15 / 10)
             else if sectionType = js ''header'' \<or> sectionType = js ''footer'' then baseScale * num M (12 / 10)
             else baseScale)"

definition default_section :: "'n Math \<Rightarrow> 'n FractalSection" where
  "default_section M =
     \<lparr>section_name = js ''default'', section_algorithm = js ''mandelbrot'', enabled = True,
      section_position = (num M 0, num M 0, num M 0), section_scale = num M 1\<rparr>"

text \<open>The callback of \<open>sectionTypes.forEach\<close> in \<open>createDefaultSections\<close>.\<close>

definition add_section_for ::
  "('n::{plus,minus,times,inverse}) Math \<Rightarrow> 'n HTMLFeatures \<Rightarrow> jsstring \<times> nat \<Rightarrow>
   'n FractalSection list \<Rightarrow> 'n FractalSection list" where
  "add_section_for M features type_index sections =
     (let type = fst type_index; index = snd type_index
      in if positive_count features type then
           sections @
             [\<lparr>section_name = type,
               section_algorithm = selectAlgorithmForSection features type index,
               enabled = True,
               section_position = calculateSectionPosition M index (length sections),
               section_scale = calculateSectionScale M (Some features) type\<rparr>]
         else sections)"

definition createDefaultSections ::
  "('n::{plus,minus,times,inverse}) Math \<Rightarrow> 'n HTMLFeatures option \<Rightarrow> 'n FractalSection list" where
  "createDefaultSections M this_features =
     (case this_features of
        None \<Rightarrow> []
      | Some features \<Rightarrow>
          let sections = fold (add_section_for M features)
                           (zip sectionTypes [0..<length sectionTypes]) []
          in if length sections = 0 then sections @ [default_section M] else sections)"

definition baseIterations :: "jsstring \<rightharpoonup> int" where
  "baseIterations =
     map_of [(js ''mandelbrot'', 40), (js ''julia'', 35), (js ''lorenz'', 50), (js ''dragon'', 20),
             (js ''sierpinski'', 30), (js ''spirograph'', 60), (js ''tree'', 25)]"

definition calculateIterations ::
  "('n::{plus,times,inverse}) Math \<Rightarrow> 'n HTMLFeatures option \<Rightarrow> jsstring \<Rightarrow> int" where
  "calculateIterations M this_features algo =
     (let complexity =
            (case this_features of
               None \<Rightarrow> 100
             | Some features \<Rightarrow>
                 if totalElements (domComplexity features) = 0 then 100
                 else totalElements (domComplexity features));
          multiplier = Math_min M (num M 1 + int_num M (int complexity) / num M 1000) (num M 2);
          base = (case baseIterations algo of None \<Rightarrow> 30 | Some b \<Rightarrow> b)
      in Math_floor M (int_num M base * multiplier))"

text \<open>
  \<open>createFractalObject\<close>: the dispatch on the algorithm identifier. Only the tree draws
  from \<open>Math.random\<close>.
\<close>

definition createFractalObject ::
  "('n::{plus,minus,times,inverse,uminus,ord}) Math \<Rightarrow> (nat \<Rightarrow> 'n) \<Rightarrow> nat \<Rightarrow> 'n HTMLFeatures option \<Rightarrow>
   jsstring \<Rightarrow> 'n FractalParams \<Rightarrow> 'n Object3D option \<times> nat" where
  "createFractalObject M random calls this_features algo params =
     (case this_features of
        None \<Rightarrow> (None, calls)
      | Some features \<Rightarrow>
          if algo = js ''mandelbrot'' then (Some (generateMandelbrotSet M features params), calls)
          else if algo = js ''julia'' then (Some (generateJuliaSet M features params), calls)
          else if algo = js ''lorenz'' then (Some (generateLorenzAttractor M features params), calls)
          else if algo = js ''dragon'' then (Some (generateDragonCurve M features params), calls)
          else if algo = js ''sierpinski'' then
            (Some (generateSierpinskiTetrahedron M features params), calls)
          else if algo = js ''spirograph'' then (Some (generateSpirograph M features params), calls)
          else if algo = js ''tree'' then
            (let made = generateFractalTree M random calls features params
             in (Some (fst made), snd made))
          else (Some (generateMandelbrotSet M features params), calls))"

text \<open>An object added to the scene, with the placement that \<open>generateFractalSections\<close> gives it.\<close>

record 'n PlacedObject =
  object3d :: "'n Object3D"
  object_position :: "'n \<times> 'n \<times> 'n"
  object_scale :: "'n"
  object_rotation :: "'n \<times> 'n \<times> 'n"

text \<open>The callback of \<open>sections.forEach\<close> in \<open>generateFractalSections\<close>.\<close>

definition generate_section ::
  "('n::{plus,minus,times,inverse,uminus,ord}) Math \<Rightarrow> (nat \<Rightarrow> 'n) \<Rightarrow> 'n HTMLFeatures option \<Rightarrow>
   'n FractalSection \<times> nat \<Rightarrow> 'n PlacedObject list \<times> nat \<Rightarrow> 'n PlacedObject list \<times> nat" where
  "generate_section M random this_features section_index st =
     (let sec = fst section_index; index = snd section_index
      in case this_features of
           None \<Rightarrow> st
         | Some features \<Rightarrow>
             if \<not> enabled sec then st
             else
               let params =
                     \<lparr>iterations = calculateIterations M this_features (section_algorithm sec),
                      complexity = avgNestingLevel (domComplexity features),
                      scale = section_scale sec,
                      colorSeed = generator_simpleHash (section_name sec @ structuralHash features) +
                                  int index * 60,
                      algorithm = section_algorithm sec,
                      morphFactor = int_num M (int (nestingDepth (semanticStructure features))) / num M 10,
                      animationSpeed = num M 1\<rparr>;
                   made = createFractalObject M random (snd st) this_features (section_algorithm sec) params
               in case fst made of
                    None \<Rightarrow> (fst st, snd made)
                  | Some fractalObject \<Rightarrow>
                      let rotationOffset = (int_num M (int index) * Math_PI M) / num M 3
                      in (fst st @
                            [\<lparr>object3d = fractalObject,
                              object_position = section_position sec,
                              object_scale = section_scale sec,
                              object_rotation =
                                (rotationOffset, rotationOffset * num M (7 / 10),
                                 rotationOffset * num M (3 / 10))\<rparr>],
                          snd made))"

definition positionCamera ::
  "('n::{plus,times}) Math \<Rightarrow> 'n HTMLFeatures option \<Rightarrow> 'n \<times> 'n \<times> 'n" where
  "positionCamera M this_features =
     (case this_features of
        None \<Rightarrow> (num M 50, num M 30, num M 50)
      | Some features \<Rightarrow>
          let distance = num M 40 +
                Math_log M (int_num M (int (totalElements (domComplexity features) + 1))) * num M 10;
              height = int_num M (int (20 + nestingDepth (semanticStructure features) * 2))
          in (distance, height, distance))"

text \<open>
  The state of a generator object: the analysed features, the objects in the scene, the
  camera position, the settings handed to the renderer and the controls, and whether the
  animation loop is registered.
\<close>

record 'n EnhancedFractalGenerator =
  gen_features :: "'n HTMLFeatures option"
  currentMeshes :: "'n PlacedObject list"
  cameraPosition :: "'n \<times> 'n \<times> 'n"
  appliedSettings :: "RenderSettings option"
  animating :: bool

definition new_EnhancedFractalGenerator :: "'n Math \<Rightarrow> 'n EnhancedFractalGenerator" where
  "new_EnhancedFractalGenerator M =
     \<lparr>gen_features = None, currentMeshes = [], cameraPosition = (num M 0, num M 0, num M 0),
      appliedSettings = None, animating = False\<rparr>"

section \<open>The analyzer as a whole\<close>

text \<open>
  \<open>HTMLAnalyzer.analyze\<close> parses the markup with the host's \<open>DOMParser\<close> and fills the
  summary. The tag counts and the fingerprint are the functions above; what the host's
  parser and the remaining extractors yield for a markup string, or the exception they
  raise, is the parameter \<open>host\<close>.
\<close>

datatype js_error = Error jsstring

definition analyze ::
  "(jsstring \<Rightarrow> js_error + 'n HTMLFeatures) \<Rightarrow> jsstring \<Rightarrow> js_error + 'n HTMLFeatures" where
  "analyze host html =
     (case host html of
        Inl e \<Rightarrow> Inl e
      | Inr summary \<Rightarrow>
          Inr (summary\<lparr>tagCounts := extractTagCounts html,
                       structuralHash := generateStructuralHash html\<rparr>))"

text \<open>\<open>const finalSections = sections.length > 0 ? sections : defaultSections\<close>\<close>

definition finalSections ::
  "('n::{plus,minus,times,inverse}) Math \<Rightarrow> 'n HTMLFeatures option \<Rightarrow> 'n FractalSection list \<Rightarrow>
   'n FractalSection list" where
  "finalSections M this_features sections =
     (let defaultSections = createDefaultSections M this_features
      in if length sections > 0 then sections else defaultSections)"

text \<open>
  \<open>EnhancedFractalGenerator.generateFractal\<close>; an exception of the analysis leaves the
  method at that point.
\<close>

definition generator_generateFractal ::
  "('n::{plus,minus,times,inverse,uminus,ord}) Math \<Rightarrow> (nat \<Rightarrow> 'n) \<Rightarrow> nat \<Rightarrow>
   (jsstring \<Rightarrow> js_error + 'n HTMLFeatures) \<Rightarrow> 'n EnhancedFractalGenerator \<Rightarrow> jsstring \<Rightarrow>
   'n FractalSection list \<Rightarrow> RenderSettings \<Rightarrow> js_error + 'n EnhancedFractalGenerator \<times> nat" where
  "generator_generateFractal M random calls host this html sections settings =
     (let cleared = this\<lparr>currentMeshes := [], animating := False\<rparr>
      in case analyze host html of
           Inl e \<Rightarrow> Inl e
         | Inr features \<Rightarrow>
             let made = fold (generate_section M random (Some features))
                          (zip (finalSections M (Some features) sections)
                               [0..<length (finalSections M (Some features) sections)])
                          ([], calls)
             in Inr (cleared\<lparr>gen_features := Some features,
                             currentMeshes := fst made,
                             cameraPosition := positionCamera M (Some features),
                             appliedSettings := Some settings,
                             animating := True\<rparr>,
                     snd made))"

section \<open>The content-script viewer\<close>

text \<open>
  \<open>FractalViewer\<close> of \<open>enhancedContent.ts\<close>. Generator objects are numbered in the order of
  their creation and kept in \<open>generator_objects\<close>; the canvas of a generator carries the same
  number. \<open>container\<close> is \<open>None\<close> when there is no container element, and otherwise holds the
  canvas inside it, if any. Of the document, the number of control panels, the alerts shown
  and the warnings and errors on the console are kept.
\<close>

datatype console_entry = Warn jsstring | ConsoleError jsstring

record 'n FractalViewer =
  generator :: "nat option"
  container :: "nat option option"
  currentFeatures :: "'n HTMLFeatures option"
  cachedModes :: "jsstring \<rightharpoonup> nat \<times> nat"
  currentMode :: "jsstring option"
  isActive :: bool
  generator_objects :: "'n EnhancedFractalGenerator list"
  disposed :: "nat list"
  control_panels :: nat
  alerts :: "jsstring list"
  console :: "console_entry list"
  random_calls_made :: nat


definition message :: "js_error \<Rightarrow> jsstring" where
  "message e = (case e of Error m \<Rightarrow> m)"

text \<open>The fixed features that \<open>analyzeCurrentPage\<close> returns from its \<open>catch\<close> block.\<close>

definition fallback_features :: "'n Math \<Rightarrow> 'n HTMLFeatures" where
  "fallback_features M =
     \<lparr>tagCounts = [js ''div'' \<mapsto> 50, js ''span'' \<mapsto> 30, js ''p'' \<mapsto> 20],
      classCounts = [js ''container'' \<mapsto> 10, js ''content'' \<mapsto> 15],
      idCounts = [js ''main'' \<mapsto> 1, js ''header'' \<mapsto> 1],
      attributeCounts = [js ''class'' \<mapsto> 25, js ''id'' \<mapsto> 5],
      semanticStructure =
        \<lparr>nestingDepth = 3, semanticTags = [js ''div'', js ''span'', js ''p''],
         interactiveTags = [js ''button'', js ''a''], mediaTags = [js ''img'']\<rparr>,
      contentMetrics = \<lparr>textLength = 1000, linkCount = 20, imageCount = 5, formElements = 2\<rparr>,
      domComplexity =
        \<lparr>totalElements = 100, uniqueTags = 10, avgNestingLevel = num M 3, maxNestingLevel = 8\<rparr>,
      colorPalette = [js ''#000000'', js ''#ffffff''],
      structuralHash = js ''default''\<rparr>"

definition analyzeCurrentPage ::
  "'n Math \<Rightarrow> (jsstring \<Rightarrow> js_error + 'n HTMLFeatures) \<Rightarrow> jsstring \<Rightarrow> 'n FractalViewer \<Rightarrow>
   'n HTMLFeatures \<times> 'n FractalViewer" where
  "analyzeCurrentPage M host html v =
     (case analyze host html of
        Inr features \<Rightarrow> (features, v)
      | Inl e \<Rightarrow>
          (fallback_features M,
           v\<lparr>console := console v @ [ConsoleError (js ''Fractal-it Enhanced: Error analyzing page:'')]\<rparr>))"

text \<open>\<open>generator.dispose()\<close> inside \<open>closeFractal\<close>, for the generator that is not the cached one.\<close>

definition dispose_unless_cached :: "'n FractalViewer \<Rightarrow> 'n FractalViewer" where
  "dispose_unless_cached v =
     (case generator v of
        None \<Rightarrow> v
      | Some g \<Rightarrow>
          (case currentMode v of
             None \<Rightarrow> v\<lparr>disposed := disposed v @ [g]\<rparr>
           | Some m \<Rightarrow>
               if m = [] then v\<lparr>disposed := disposed v @ [g]\<rparr>
               else
                 (case cachedModes v m of
                    None \<Rightarrow> v\<lparr>disposed := disposed v @ [g]\<rparr>
                  | Some cachedData \<Rightarrow>
                      if snd cachedData \<noteq> g then v\<lparr>disposed := disposed v @ [g]\<rparr> else v)))"

definition closeFractal :: "'n FractalViewer \<Rightarrow> 'n FractalViewer" where
  "closeFractal v =
     (dispose_unless_cached (v\<lparr>container := None, control_panels := 0\<rparr>))
       \<lparr>generator := None, isActive := False\<rparr>"

text \<open>
  \<open>FractalViewer.generateFractal\<close> with the page's markup \<open>html\<close> at the time of the call. The
  body is one \<open>try\<close> block; its \<open>catch\<close> reports the error on the console and in an alert.
\<close>

definition viewer_generateFractal ::
  "('n::{plus,minus,times,inverse,uminus,ord}) Math \<Rightarrow> (nat \<Rightarrow> 'n) \<Rightarrow>
   (jsstring \<Rightarrow> js_error + 'n HTMLFeatures) \<Rightarrow> jsstring \<Rightarrow> 'n FractalSection list \<Rightarrow>
   RenderSettings \<Rightarrow> jsstring option \<Rightarrow> 'n FractalViewer \<Rightarrow> 'n FractalViewer" where
  "viewer_generateFractal M random host html sections settings mode v =
     (let v1 = (case container v of
                  None \<Rightarrow> closeFractal v
                | Some canvas \<Rightarrow> v\<lparr>container := Some None, control_panels := control_panels v - 1\<rparr>);
          v2 = (case currentFeatures v1 of
                  None \<Rightarrow>
                    (let analysed = analyzeCurrentPage M host html v1
                     in (snd analysed)\<lparr>currentFeatures := Some (fst analysed)\<rparr>)
                | Some features \<Rightarrow> v1);
          fresh = length (generator_objects v2);
          v3 = v2\<lparr>generator_objects := generator_objects v2 @ [new_EnhancedFractalGenerator M]\<rparr>
      in case generator_generateFractal M random (random_calls_made v3) host
                (new_EnhancedFractalGenerator M) html sections settings of
           Inl e \<Rightarrow>
             v3\<lparr>console := console v3 @ [ConsoleError (js ''Fractal-it Enhanced: Error generating fractal:'')],
                alerts := alerts v3 @ [js ''Error generating fractal: '' @ message e]\<rparr>
         | Inr generated \<Rightarrow>
             let v4 = v3\<lparr>generator_objects := (generator_objects v3)[fresh := fst generated],
                         random_calls_made := snd generated\<rparr>;
                 v5 = (case mode of
                         None \<Rightarrow> v4
                       | Some m \<Rightarrow>
                           if m = [] then v4
                           else v4\<lparr>cachedModes := (cachedModes v4)(m \<mapsto> (fresh, fresh)),
                                   currentMode := Some m, generator := Some fresh\<rparr>)
             in v5\<lparr>container := Some (Some fresh), control_panels := control_panels v5 + 1\<rparr>)"


section \<open>The optimized generator\<close>














section \<open>The spider web\<close>













text \<open>Concrete features and parameters for evaluating the definitions.\<close>

definition sample_features :: "rat HTMLFeatures" where
  "sample_features =
     \<lparr>tagCounts = Map.empty, classCounts = Map.empty, idCounts = Map.empty,
      attributeCounts = Map.empty,
      semanticStructure = \<lparr>nestingDepth = 5, semanticTags = [], interactiveTags = [], mediaTags = []\<rparr>,
      contentMetrics = \<lparr>textLength = 0, linkCount = 0, imageCount = 0, formElements = 0\<rparr>,
      domComplexity = \<lparr>totalElements = 0, uniqueTags = 0, avgNestingLevel = 0, maxNestingLevel = 0\<rparr>,
      colorPalette = [], structuralHash = []\<rparr>"

definition sample_params :: "int \<Rightarrow> rat FractalParams" where
  "sample_params n =
     \<lparr>iterations = n, complexity = 0, scale = 1, colorSeed = 0, algorithm = [],
      morphFactor = 0, animationSpeed = 1\<rparr>"








section \<open>Properties of the hash\<close>





lemma spec_rolling_hash_31:
  "spec_rolling_hash s = foldl (\<lambda>h c. 31 * h + word_of_nat c) 0 s"
proof -
  have "(\<lambda>(h :: 32 word) c. push_bit 5 h - h + word_of_nat c) = (\<lambda>h c. 31 * h + word_of_nat c)"
    by (intro ext) (simp add: push_bit_eq_mult)
  then show ?thesis by (simp add: spec_rolling_hash_def)
qed



section \<open>Properties of the fingerprint\<close>

lemmas fingerprint_eval =
  js_def starts_with_def is_space_def is_line_terminator_def match_ws_def match_comment_def
  match_attr_def simplified_def generateStructuralHash_def simpleHash_def hash_loop_def
  hash_step_def shl32_def to_int32_def toString36_def digit36_def digits36.simps Let_def

text \<open>
  The scenario of the specification: with the attribute written \<open>class="..."\<close>, changing the
  class from \<open>a\<close> to \<open>b\<close> leaves the fingerprint as it is.
\<close>

lemma fingerprint_double_quoted_class:
  "generateStructuralHash (js ''<header class=\"a\">Hi</header><footer>Bye</footer>'') =
   generateStructuralHash (js ''<header class=\"b\">Hi</header><footer>Bye</footer>'')"
  by (simp add: fingerprint_eval)

text \<open>
  C1 (fingerprint stability under altered class, id and style values): the normalisation
  only removes attributes written \<open>name="..."\<close>. A class attribute in single quotes, which
  \<open>extractClassCounts\<close> of the same analyzer recognises as a class attribute, stays in
  the normalised string, so altering its value from \<open>a\<close> to \<open>b\<close> changes the fingerprint
  from \<open>-dydr9a\<close> to \<open>-dydqil\<close>.
\<close>

theorem C1_single_quoted_class_changes_fingerprint:
  "generateStructuralHash (js ''<p class='a'>'') = js ''-dydr9a'' \<and>
   generateStructuralHash (js ''<p class='b'>'') = js ''-dydqil'' \<and>
   generateStructuralHash (js ''<p class='a'>'') \<noteq> generateStructuralHash (js ''<p class='b'>'')"
  by (simp add: fingerprint_eval)

section \<open>Properties of the tag counts\<close>














section \<open>Properties of the escape-time generators\<close>

lemma escape_loop_step:
  "escape_loop M a b x y n =
     (if inside M (x, y) \<and> n < 100
      then escape_loop M a b (fst (quadratic_map M a b (x, y))) (snd (quadratic_map M a b (x, y))) (n + 1)
      else n)"
  by (subst escape_loop.simps) (simp add: inside_def quadratic_map_def)

lemma escape_loop_guard:
  "escape_loop M a b x y n < 100 \<longleftrightarrow>
     n < 100 \<and> (\<exists>k. n + k < 100 \<and> \<not> inside M (orbit M a b (x, y) k))"
proof (induction M a b x y n rule: escape_loop.induct)
  case (1 M a b x y n)
  show ?case
  proof (cases "inside M (x, y) \<and> n < 100")
    case True
    let ?z = "quadratic_map M a b (x, y)"
    have "escape_loop M a b x y n = escape_loop M a b (fst ?z) (snd ?z) (n + 1)"
      using True by (subst escape_loop_step) simp
    also have "\<dots> < 100 \<longleftrightarrow> n + 1 < 100 \<and> (\<exists>k. n + 1 + k < 100 \<and> \<not> inside M (orbit M a b ?z k))"
      using "1.IH" True by (simp add: inside_def quadratic_map_def)
    also have "\<dots> \<longleftrightarrow> n < 100 \<and> (\<exists>k. n + k < 100 \<and> \<not> inside M (orbit M a b (x, y) k))"
    proof
      assume "n + 1 < 100 \<and> (\<exists>k. n + 1 + k < 100 \<and> \<not> inside M (orbit M a b ?z k))"
      then obtain k where "n + 1 + k < 100" "\<not> inside M (orbit M a b ?z k)" by blast
      then have "n + Suc k < 100 \<and> \<not> inside M (orbit M a b (x, y) (Suc k))"
        by (simp add: orbit_def funpow_swap1)
      then show "n < 100 \<and> (\<exists>k. n + k < 100 \<and> \<not> inside M (orbit M a b (x, y) k))"
        using True by blast
    next
      assume "n < 100 \<and> (\<exists>k. n + k < 100 \<and> \<not> inside M (orbit M a b (x, y) k))"
      then obtain k where k: "n + k < 100" "\<not> inside M (orbit M a b (x, y) k)" by blast
      with True obtain k' where "k = Suc k'" by (cases k) (auto simp: orbit_def)
      with k have "n + 1 + k' < 100 \<and> \<not> inside M (orbit M a b ?z k')"
        by (simp add: orbit_def funpow_swap1)
      then show "n + 1 < 100 \<and> (\<exists>k. n + 1 + k < 100 \<and> \<not> inside M (orbit M a b ?z k))"
        by auto
    qed
    finally show ?thesis .
  next
    case False
    then have "escape_loop M a b x y n = n"
      by (subst escape_loop_step) auto
    moreover have "n < 100 \<Longrightarrow> \<exists>k. n + k < 100 \<and> \<not> inside M (orbit M a b (x, y) k)"
      using False by (intro exI [of _ 0]) (simp add: orbit_def)
    ultimately show ?thesis by auto
  qed
qed

lemma escape_loop_le: "n \<le> 100 \<Longrightarrow> escape_loop M a b x y n \<le> 100"
proof (induction M a b x y n rule: escape_loop.induct)
  case (1 M a b x y n)
  then show ?case by (subst escape_loop.simps) auto
qed

lemma escape_loop_escapes:
  fixes M :: "('n::{plus,minus,times,linorder}) Math"
  shows "escape_loop M a b (fst z) (snd z) 0 < 100 \<longleftrightarrow> escapes M a b z"
  by (simp add: escape_loop_guard escapes_def inside_def not_le)


lemma escape_loop_escapes_pair:
  fixes M :: "('n::{plus,minus,times,linorder}) Math"
  shows "escape_loop M a b x y 0 < 100 \<longleftrightarrow> escapes M a b (x, y)"
  using escape_loop_escapes [of M a b "(x, y)"] by simp

lemma fold_count:
  assumes "\<And>x buf. length (g (f x buf)) = length (g buf) + (if P x then c else 0)"
  shows "length (g (fold f xs buf)) = length (g buf) + c * length (filter P xs)"
  using assms by (induction xs arbitrary: buf) auto

lemma fold_fold_product:
  "fold (\<lambda>i. fold (\<lambda>j. f i j) ys) xs buf = fold (\<lambda>(i, j). f i j) (List.product xs ys) buf"
proof (induction xs arbitrary: buf)
  case Nil
  then show ?case by simp
next
  case (Cons i xs)
  have "fold (\<lambda>(i, j). f i j) (map (Pair i) ys) b = fold (\<lambda>j. f i j) ys b" for b
    by (induction ys arbitrary: b) auto
  with Cons show ?case by simp
qed

lemma mandelbrot_sample_lengths:
  fixes M :: "('n::{plus,minus,times,inverse,linorder}) Math"
  shows "length (vertices (mandelbrot_sample M features params i j buf)) =
           length (vertices buf) + (if mandelbrot_escapes M features params i j then 3 else 0)"
    and "length (colors (mandelbrot_sample M features params i j buf)) =
           length (colors buf) + (if mandelbrot_escapes M features params i j then 3 else 0)"
    and "\<not> mandelbrot_escapes M features params i j \<Longrightarrow> mandelbrot_sample M features params i j buf = buf"
  by (simp_all add: mandelbrot_sample_def mandelbrot_escapes_def Let_def push_color_def
      escape_loop_escapes escape_loop_escapes_pair)

lemma julia_sample_lengths:
  fixes M :: "('n::{plus,minus,times,inverse,linorder}) Math"
  shows "length (vertices (julia_sample M features params i j buf)) =
           length (vertices buf) + (if julia_escapes M features params i j then 3 else 0)"
    and "length (colors (julia_sample M features params i j buf)) =
           length (colors buf) + (if julia_escapes M features params i j then 3 else 0)"
    and "\<not> julia_escapes M features params i j \<Longrightarrow> julia_sample M features params i j buf = buf"
  by (simp_all add: julia_sample_def julia_escapes_def Let_def push_color_def
      escape_loop_escapes escape_loop_escapes_pair)

lemma generateMandelbrotSet_count:
  fixes M :: "('n::{plus,minus,times,inverse,linorder}) Math"
  shows "length (position (generateMandelbrotSet M features params)) =
    3 * length (filter (\<lambda>(i, j). mandelbrot_escapes M features params i j)
      (List.product [0..iterations params - 1] [0..iterations params - 1]))"
proof -
  have "length (vertices (fold (\<lambda>(i, j). mandelbrot_sample M features params i j) xs buf)) =
        length (vertices buf) + 3 * length (filter (\<lambda>(i, j). mandelbrot_escapes M features params i j) xs)" for xs buf
    by (rule fold_count) (auto simp: mandelbrot_sample_lengths)
  then show ?thesis
    by (simp add: generateMandelbrotSet_def Let_def fold_fold_product)
qed

lemma generateJuliaSet_count:
  fixes M :: "('n::{plus,minus,times,inverse,linorder}) Math"
  shows "length (position (generateJuliaSet M features params)) =
    3 * length (filter (\<lambda>(i, j). julia_escapes M features params i j)
      (List.product [0..iterations params - 1] [0..iterations params - 1]))"
proof -
  have "length (vertices (fold (\<lambda>(i, j). julia_sample M features params i j) xs buf)) =
        length (vertices buf) + 3 * length (filter (\<lambda>(i, j). julia_escapes M features params i j) xs)" for xs buf
    by (rule fold_count) (auto simp: julia_sample_lengths)
  then show ?thesis
    by (simp add: generateJuliaSet_def Let_def fold_fold_product)
qed

text \<open>
  C6: in \<open>generateMandelbrotSet\<close> and \<open>generateJuliaSet\<close> the loop at a sample runs the map
  \<open>x' = x\<^sup>2 - y\<^sup>2 + a, y' = 2xy + b\<close> for at most 100 steps; the sample contributes one vertex
  (three coordinates) and one color (three components) if some iterate reached in fewer
  than 100 steps has \<open>x\<^sup>2 + y\<^sup>2 > 4\<close>, and nothing otherwise; the generated object holds exactly
  the vertices of the escaping samples of the grid. Numbers are linearly ordered here
  (no NaN); \<open>escape_loop_guard\<close> is the statement without any assumption on the order.
\<close>

theorem C6_vertex_iff_escape_before_cap:
  fixes M :: "('n::{plus,minus,times,inverse,linorder}) Math"
  shows
    "escape_loop M a b x y 0 \<le> 100 \<and>
     (escape_loop M a b x y 0 < 100 \<longleftrightarrow> escapes M a b (x, y)) \<and>
     length (vertices (mandelbrot_sample M features params i j buf)) =
       length (vertices buf) + (if mandelbrot_escapes M features params i j then 3 else 0) \<and>
     length (colors (mandelbrot_sample M features params i j buf)) =
       length (colors buf) + (if mandelbrot_escapes M features params i j then 3 else 0) \<and>
     length (vertices (julia_sample M features params i j buf)) =
       length (vertices buf) + (if julia_escapes M features params i j then 3 else 0) \<and>
     length (colors (julia_sample M features params i j buf)) =
       length (colors buf) + (if julia_escapes M features params i j then 3 else 0) \<and>
     length (position (generateMandelbrotSet M features params)) =
       3 * length (filter (\<lambda>(i, j). mandelbrot_escapes M features params i j)
         (List.product [0..iterations params - 1] [0..iterations params - 1])) \<and>
     length (position (generateJuliaSet M features params)) =
       3 * length (filter (\<lambda>(i, j). julia_escapes M features params i j)
         (List.product [0..iterations params - 1] [0..iterations params - 1]))"
  using escape_loop_le [of 0 M a b x y] escape_loop_escapes_pair [of M a b x y]
    mandelbrot_sample_lengths(1,2) [of M features params i j buf]
    julia_sample_lengths(1,2) [of M features params i j buf]
    generateMandelbrotSet_count [of M features params]
    generateJuliaSet_count [of M features params]
  by simp

lemma sample_escapes:
  "mandelbrot_escapes rational_math sample_features (sample_params 1000) 999 999"
  unfolding escapes_def mandelbrot_escapes_def Let_def
  by (rule exI [of _ 1])
    (simp add: orbit_def quadratic_map_def mandelbrot_point_def rational_math_def int_num_def
      Let_def sample_features_def sample_params_def)

lemma sample_stays:
  "\<not> mandelbrot_escapes rational_math sample_features (sample_params 2) 1 1"
proof -
  have "escape_loop rational_math 0 0 0 0 0 = 100"
    by (simp add: escape_loop.simps rational_math_def)
  then show ?thesis
    by (simp add: mandelbrot_point_def rational_math_def int_num_def Let_def sample_features_def
        sample_params_def mandelbrot_escapes_def flip: escape_loop_escapes_pair)
qed

theorem C6_vertex_iff_escape_witness:
  "mandelbrot_escapes rational_math sample_features (sample_params 1000) 999 999 \<and>
   length (vertices (mandelbrot_sample rational_math sample_features (sample_params 1000) 999 999
      \<lparr>vertices = [], colors = []\<rparr>)) = 3 \<and>
   \<not> mandelbrot_escapes rational_math sample_features (sample_params 2) 1 1 \<and>
   length (vertices (mandelbrot_sample rational_math sample_features (sample_params 2) 1 1
      \<lparr>vertices = [], colors = []\<rparr>)) = 0"
  using sample_escapes sample_stays
    C6_vertex_iff_escape_before_cap [of rational_math 0 0 0 0 sample_features "sample_params 1000"
      999 999 "\<lparr>vertices = [], colors = []\<rparr>"]
    C6_vertex_iff_escape_before_cap [of rational_math 0 0 0 0 sample_features "sample_params 2"
      1 1 "\<lparr>vertices = [], colors = []\<rparr>"]
  by simp

section \<open>Properties of the fractal tree\<close>

lemma fold_add_length:
  assumes "\<And>x b. x \<in> set xs \<Longrightarrow> length (g (f x b)) = length (g b) + c"
  shows "length (g (fold f xs b)) = length (g b) + length xs * c"
  using assms by (induction xs arbitrary: b) auto

lemma push_segment_vertices:
  "length (vertices (fst (push_segment M random sx sy sz ex ey ez depth params buf))) =
   length (vertices buf) + 6"
  by (simp add: push_segment_def Let_def)

lemma generateBranch_vertices:
  "length (vertices (generateBranch M random sx sy sz ex ey ez depth bf features params buf)) =
   length (vertices buf) + 6 * branch_segments depth bf"
proof (induction M random sx sy sz ex ey ez depth bf features params buf rule: generateBranch.induct)
  case (1 M random sx sy sz ex ey ez depth bf features params buf)
  show ?case
  proof (cases "depth \<le> 0 \<or> depth > 20")
    case True
    then show ?thesis
      by (simp add: generateBranch.simps branch_segments.simps)
  next
    case False
    let ?pushed = "push_segment M random sx sy sz ex ey ez depth params buf"
    let ?step = "\<lambda>i b. let e = new_end M random ex ey ez (snd ?pushed) i bf b
                in generateBranch M random ex ey ez
                     (fst (fst e)) (fst (snd (fst e))) (snd (snd (fst e)))
                     (depth - 1) (max 2 (bf - 1)) features params (snd e)"
    have step: "length (vertices (?step i b)) =
        length (vertices b) + 6 * branch_segments (depth - 1) (max 2 (bf - 1))"
      if "i \<in> set [0..bf - 1]" for i b
      using "1.IH" [OF False refl that refl] by (simp add: Let_def new_end_def)
    have "length (vertices (fold ?step [0..bf - 1] (fst ?pushed))) =
        length (vertices (fst ?pushed)) +
        length [0..bf - 1] * (6 * branch_segments (depth - 1) (max 2 (bf - 1)))"
      by (rule fold_add_length) (rule step)
    moreover have "length [0..bf - 1] = nat bf" by simp
    ultimately show ?thesis
      using False
      by (subst generateBranch.simps, subst branch_segments.simps)
         (simp add: push_segment_vertices Let_def algebra_simps)
  qed
qed

lemma branch_segments_mono_factor:
  "bf \<le> bf' \<Longrightarrow> branch_segments (int k) bf \<le> branch_segments (int k) bf'"
proof (induction k arbitrary: bf bf')
  case 0
  then show ?case by (simp add: branch_segments.simps)
next
  case (Suc k)
  have "branch_segments (int k) (max 2 (bf - 1)) \<le> branch_segments (int k) (max 2 (bf' - 1))"
    using Suc.prems by (intro Suc.IH) simp
  moreover have "nat bf \<le> nat bf'" using Suc.prems by simp
  ultimately have "nat bf * branch_segments (int k) (max 2 (bf - 1)) \<le>
      nat bf' * branch_segments (int k) (max 2 (bf' - 1))"
    by (simp add: mult_le_mono)
  then show ?case
    by (subst (1 2) branch_segments.simps) simp
qed

lemma branch_segments_mono_depth_Suc:
  "int k < 20 \<Longrightarrow> branch_segments (int k) bf \<le> branch_segments (int (Suc k)) bf"
proof (induction k arbitrary: bf)
  case 0
  then show ?case by (simp add: branch_segments.simps)
next
  case (Suc k)
  have "branch_segments (int k) (max 2 (bf - 1)) \<le> branch_segments (int (Suc k)) (max 2 (bf - 1))"
    using Suc.prems by (intro Suc.IH) simp
  then have "nat bf * branch_segments (int k) (max 2 (bf - 1)) \<le>
      nat bf * branch_segments (int (Suc k)) (max 2 (bf - 1))"
    by simp
  then show ?case
    using Suc.prems by (subst (1 2) branch_segments.simps) simp
qed

lemma branch_segments_mono_depth:
  "k \<le> k' \<Longrightarrow> int k' \<le> 20 \<Longrightarrow> branch_segments (int k) bf \<le> branch_segments (int k') bf"
proof (induction k' arbitrary: bf)
  case 0
  then show ?case by simp
next
  case (Suc k')
  show ?case
  proof (cases "k = Suc k'")
    case True
    then show ?thesis by simp
  next
    case False
    with Suc.prems have "branch_segments (int k) bf \<le> branch_segments (int k') bf"
      by (intro Suc.IH) simp_all
    also have "\<dots> \<le> branch_segments (int (Suc k')) bf"
      using Suc.prems by (intro branch_segments_mono_depth_Suc) simp
    finally show ?thesis .
  qed
qed

lemma branch_segments_12_6: "branch_segments 12 6 = 91957"
  by (simp add: branch_segments.simps)

lemma branch_segments_cap:
  assumes "depth \<le> 12" "bf \<le> 6"
  shows "branch_segments depth bf \<le> 91957"
proof (cases "depth \<le> 0")
  case True
  then show ?thesis by (simp add: branch_segments.simps)
next
  case False
  then obtain k where k: "depth = int k" using nonneg_int_cases [of depth] by force
  have "branch_segments (int k) bf \<le> branch_segments (int k) 6"
    using assms by (intro branch_segments_mono_factor)
  also have "\<dots> \<le> branch_segments (int 12) 6"
    using assms k by (intro branch_segments_mono_depth) simp_all
  finally show ?thesis using k by (simp add: branch_segments_12_6)
qed

text \<open>
  C3: \<open>generateFractalTree\<close> returns for every input (the recursion of \<open>generateBranch\<close> is
  well-founded: each call passes \<open>depth - 1\<close> and a call with \<open>depth \<le> 0\<close> returns at once),
  whatever \<open>Math.random\<close> yields. The depth it starts from is \<open>nestingDepth + 6\<close> capped at 12,
  the branching factor \<open>uniqueTags + 2\<close> capped at 6, and the number of line segments it
  emits is at most 91957, the count for depth 12 and branching factor 6.
\<close>

theorem C3_tree_segments_bounded:
  "segment_count (fst (generateFractalTree M random calls features params)) =
     branch_segments (int (min (nestingDepth (semanticStructure features) + 6) 12))
                     (int (min (uniqueTags (domComplexity features) + 2) 6)) \<and>
   min (nestingDepth (semanticStructure features) + 6) 12 \<le> 12 \<and>
   min (uniqueTags (domComplexity features) + 2) 6 \<le> 6 \<and>
   segment_count (fst (generateFractalTree M random calls features params)) \<le> 91957"
proof -
  let ?d = "int (min (nestingDepth (semanticStructure features) + 6) 12)"
  let ?b = "int (min (uniqueTags (domComplexity features) + 2) 6)"
  have "segment_count (fst (generateFractalTree M random calls features params)) = branch_segments ?d ?b"
    by (simp add: segment_count_def generateFractalTree_def Let_def generateBranch_vertices)
  moreover have "branch_segments ?d ?b \<le> 91957"
    by (rule branch_segments_cap) simp_all
  ultimately show ?thesis by simp
qed

text \<open>
  A document with 10000 nested levels and 10000 distinct tags reaches the ceiling and does
  not pass it.
\<close>

theorem C3_tree_segments_witness:
  "segment_count (fst (generateFractalTree rational_math (\<lambda>n. 0) 0
     (sample_features\<lparr>semanticStructure :=
          \<lparr>nestingDepth = 10000, semanticTags = [], interactiveTags = [], mediaTags = []\<rparr>,
        domComplexity :=
          \<lparr>totalElements = 100000, uniqueTags = 10000, avgNestingLevel = 0, maxNestingLevel = 10000\<rparr>\<rparr>)
     (sample_params 10000))) = 91957"
  using C3_tree_segments_bounded [of rational_math "\<lambda>n. 0" 0
     "sample_features\<lparr>semanticStructure :=
          \<lparr>nestingDepth = 10000, semanticTags = [], interactiveTags = [], mediaTags = []\<rparr>,
        domComplexity :=
          \<lparr>totalElements = 100000, uniqueTags = 10000, avgNestingLevel = 0, maxNestingLevel = 10000\<rparr>\<rparr>"
     "sample_params 10000"]
  by (simp add: branch_segments_12_6)

section \<open>Properties of the default sections\<close>










section \<open>Properties of the quality reduction\<close>















section \<open>Properties of the viewer\<close>

lemma dispose_unless_cached_fields:
  "currentFeatures (dispose_unless_cached v) = currentFeatures v"
  "alerts (dispose_unless_cached v) = alerts v"
  "console (dispose_unless_cached v) = console v"
  "cachedModes (dispose_unless_cached v) = cachedModes v"
  "currentMode (dispose_unless_cached v) = currentMode v"
  "generator_objects (dispose_unless_cached v) = generator_objects v"
  "container (dispose_unless_cached v) = container v"
  "control_panels (dispose_unless_cached v) = control_panels v"
  "random_calls_made (dispose_unless_cached v) = random_calls_made v"
  by (simp_all add: dispose_unless_cached_def split: option.splits)

lemma closeFractal_fields:
  "currentFeatures (closeFractal v) = currentFeatures v"
  "alerts (closeFractal v) = alerts v"
  "console (closeFractal v) = console v"
  "cachedModes (closeFractal v) = cachedModes v"
  "currentMode (closeFractal v) = currentMode v"
  "generator_objects (closeFractal v) = generator_objects v"
  "container (closeFractal v) = None"
  "control_panels (closeFractal v) = 0"
  "random_calls_made (closeFractal v) = random_calls_made v"
  "generator (closeFractal v) = None"
  by (simp_all add: closeFractal_def dispose_unless_cached_fields)

lemma generator_generateFractal_throws:
  "generator_generateFractal M random calls (\<lambda>html. Inl e) this html sections settings = Inl e"
  by (simp add: generator_generateFractal_def analyze_def)


lemma analyzeCurrentPage_throws:
  "analyzeCurrentPage M (\<lambda>html. Inl e) html v =
     (fallback_features M,
      v\<lparr>console := console v @ [ConsoleError (js ''Fractal-it Enhanced: Error analyzing page:'')]\<rparr>)"
  by (simp add: analyzeCurrentPage_def analyze_def)

lemma viewer_generateFractal_analysis_throws:
  fixes v :: "('n::{plus,minus,times,inverse,uminus,ord}) FractalViewer"
  shows "(let v' = viewer_generateFractal M random (\<lambda>html. Inl (Error msg)) html sections settings mode v
     in currentFeatures v' = (case currentFeatures v of None \<Rightarrow> Some (fallback_features M) | Some f \<Rightarrow> Some f) \<and>
        alerts v' = alerts v @ [js ''Error generating fractal: '' @ msg] \<and>
        container v' = (case container v of None \<Rightarrow> None | Some c \<Rightarrow> Some None) \<and>
        cachedModes v' = cachedModes v \<and>
        currentMode v' = currentMode v)"
proof (cases "container v")
  case None
  then show ?thesis
    by (cases "currentFeatures v")
      (simp_all add: viewer_generateFractal_def generator_generateFractal_throws Let_def
        analyzeCurrentPage_throws closeFractal_fields message_def)
next
  case (Some c)
  then show ?thesis
    by (cases "currentFeatures v")
      (simp_all add: viewer_generateFractal_def generator_generateFractal_throws Let_def
        analyzeCurrentPage_throws message_def)
qed







text \<open>
  C8 (an analysis failure is replaced by fallback features and generation proceeds): when
  the analysis throws, \<open>analyzeCurrentPage\<close> does put the fallback features into
  \<open>currentFeatures\<close>, but the generator analyses the markup again on its own, unguarded, and
  never reads \<open>currentFeatures\<close>. The exception leaves \<open>EnhancedFractalGenerator.generateFractal\<close>,
  the viewer's \<open>catch\<close> shows the alert, no canvas is displayed and no mode is cached.
\<close>

theorem C8_analysis_failure_aborts_generation:
  fixes v :: "('n::{plus,minus,times,inverse,uminus,ord}) FractalViewer"
  shows "(let v' = viewer_generateFractal M random (\<lambda>html. Inl (Error msg)) html sections settings mode v
     in currentFeatures v' =
          (case currentFeatures v of None \<Rightarrow> Some (fallback_features M) | Some f \<Rightarrow> Some f) \<and>
        alerts v' = alerts v @ [js ''Error generating fractal: '' @ msg] \<and>
        container v' = (case container v of None \<Rightarrow> None | Some c \<Rightarrow> Some None) \<and>
        cachedModes v' = cachedModes v \<and>
        currentMode v' = currentMode v)"
  by (rule viewer_generateFractal_analysis_throws)




section \<open>Properties of determinism\<close>







end
